theory Spec2Isabelle
  imports Complex_Main "HOL-Library.AList" "HOL-Library.Multiset" "HOL-Library.Sublist"
begin

section \<open>Python values used by the SEO toolkit\<close>

text \<open>
  The toolkit is \<^verbatim>\<open>src/utils/seo_tools.py\<close> (class \<^verbatim>\<open>FreeSEOTools\<close>) with its
  configuration \<^verbatim>\<open>src/utils/config.py\<close>.

  A Python \<^verbatim>\<open>str\<close> is a sequence of Unicode code points. What the code asks of a code
  point is decided by tables of the interpreter that are not part of the repository:
  \<^verbatim>\<open>str.isspace\<close> (the separators of \<^verbatim>\<open>str.split()\<close> and \<^verbatim>\<open>str.strip()\<close>),
  \<^verbatim>\<open>str.isdigit\<close>, the regular expression class \<^verbatim>\<open>\w\<close> and \<^verbatim>\<open>str.lower\<close>. The text
  functions are therefore embedded twice:
  \<^item> with the tables as a parameter (a record \<open>'c unicode\<close> over any type \<open>'c\<close> of code
    points, functions named \<open>..._u\<close>), for statements about every text;
  \<^item> for ASCII text, a HOL \<open>string\<close> with the classes of Python 3 on ASCII written out
    below, for evaluation. These functions are the instances of the first at the tables
    \<open>ascii\<close>; a character above 127 is outside their domain.

  An exception is a value of \<open>py_error\<close>, and a call that can raise returns
  \<open>py_error + 'a\<close> with \<open>Inl\<close> for the exception.
\<close>

datatype py_error =
    KeyError string
  | RequestException string
  | ValueError string

fun str_of_error :: "py_error \<Rightarrow> string" where
  "str_of_error (KeyError k) = [CHR 0x27] @ k @ [CHR 0x27]"
| "str_of_error (RequestException m) = m"
| "str_of_error (ValueError m) = m"

definition isspace :: "char \<Rightarrow> bool" where
  "isspace c = (let n = (of_char c :: nat) in (9 \<le> n \<and> n \<le> 13) \<or> (28 \<le> n \<and> n \<le> 32))"

definition isdigit_char :: "char \<Rightarrow> bool" where
  "isdigit_char c = (let n = (of_char c :: nat) in 48 \<le> n \<and> n \<le> 57)"

definition is_word_char :: "char \<Rightarrow> bool" where
  "is_word_char c =
     (let n = (of_char c :: nat)
      in (48 \<le> n \<and> n \<le> 57) \<or> (65 \<le> n \<and> n \<le> 90) \<or> n = 95 \<or> (97 \<le> n \<and> n \<le> 122))"

definition lower_char :: "char \<Rightarrow> char" where
  "lower_char c =
     (let n = (of_char c :: nat) in if 65 \<le> n \<and> n \<le> 90 then char_of (n + 32) else c)"

definition lower :: "string \<Rightarrow> string" where
  "lower s = map lower_char s"

definition isdigit :: "string \<Rightarrow> bool" where
  "isdigit s = (s \<noteq> [] \<and> list_all isdigit_char s)"

text \<open>
  \<open>split_on p s\<close> cuts \<open>s\<close> at every character that satisfies \<open>p\<close> and keeps the empty
  pieces: this is \<^verbatim>\<open>re.split\<close> for a one-character class such as \<^verbatim>\<open>[.!?]\<close>.
\<close>

fun split_on :: "('c \<Rightarrow> bool) \<Rightarrow> 'c list \<Rightarrow> 'c list list" where
  "split_on p [] = [[]]"
| "split_on p (c # cs) =
     (if p c then [] # split_on p cs
      else (case split_on p cs of [] \<Rightarrow> [[c]] | f # fs \<Rightarrow> (c # f) # fs))"

definition nonempty :: "'c list \<Rightarrow> bool" where
  "nonempty s = (s \<noteq> [])"

text \<open>\<^verbatim>\<open>s.split()\<close>: the maximal runs of non-space characters.\<close>

definition split_ws :: "string \<Rightarrow> string list" where
  "split_ws s = filter nonempty (split_on isspace s)"

text \<open>\<^verbatim>\<open>s.strip()\<close>: leading and trailing white space removed.\<close>

definition strip :: "string \<Rightarrow> string" where
  "strip s = rev (dropWhile isspace (rev (dropWhile isspace s)))"

text \<open>
  \<^verbatim>\<open>re.findall(r'\b\w{3,}\b', s)\<close>. A match can only start at the first character of a
  maximal run of word characters (elsewhere in the run \<^verbatim>\<open>\b\<close> fails), the greedy
  \<^verbatim>\<open>\w{3,}\<close> takes the whole run, and \<^verbatim>\<open>\b\<close> holds at its end; a run of fewer than
  three characters gives no match. So the matches are the maximal runs of word characters
  of length at least 3, from left to right.
\<close>

definition findall_words3 :: "string \<Rightarrow> string list" where
  "findall_words3 s =
     filter (\<lambda>w. 3 \<le> length w) (filter nonempty (split_on (\<lambda>c. \<not> is_word_char c) s))"

section \<open>Dictionaries, sorting and slicing\<close>

text \<open>
  A \<^verbatim>\<open>dict\<close> keeps its keys in insertion order: it is an association list with distinct
  keys. \<open>AList.update k v d\<close> is \<^verbatim>\<open>d[k] = v\<close> (an existing key keeps its place, a new one
  goes last), \<open>dict_get\<close> is \<^verbatim>\<open>d.get(k, default)\<close> and \<open>getitem\<close> is \<^verbatim>\<open>d[k]\<close>, which
  raises \<^verbatim>\<open>KeyError\<close> on a missing key.
\<close>

definition dict_get :: "('k \<times> 'v) list \<Rightarrow> 'k \<Rightarrow> 'v \<Rightarrow> 'v" where
  "dict_get d k dflt = (case map_of d k of None \<Rightarrow> dflt | Some v \<Rightarrow> v)"

definition getitem :: "(string \<times> 'v) list \<Rightarrow> string \<Rightarrow> py_error + 'v" where
  "getitem d k = (case map_of d k of None \<Rightarrow> Inl (KeyError k) | Some v \<Rightarrow> Inr v)"

text \<open>\<^verbatim>\<open>collections.Counter(ws)\<close>: one pass over \<open>ws\<close>, adding one to the count of each element.\<close>

definition Counter :: "'k list \<Rightarrow> ('k \<times> nat) list" where
  "Counter ws = foldl (\<lambda>d w. AList.update w (dict_get d w 0 + 1) d) [] ws"

text \<open>
  \<^verbatim>\<open>sorted(xs, key=key, reverse=True)\<close>. The keys are computed first, one call per element
  (an exception there ends the call); the sort is stable, and with \<^verbatim>\<open>reverse=True\<close>
  CPython reverses the list, sorts it in ascending order and reverses the result, which
  keeps elements of equal key in their original order.
\<close>

fun decorate :: "('a \<Rightarrow> 'e + 'b) \<Rightarrow> 'a list \<Rightarrow> 'e + ('a \<times> 'b) list" where
  "decorate key [] = Inr []"
| "decorate key (x # xs) =
     (case key x of
        Inl e \<Rightarrow> Inl e
      | Inr v \<Rightarrow> (case decorate key xs of Inl e \<Rightarrow> Inl e | Inr r \<Rightarrow> Inr ((x, v) # r)))"

definition sorted_reverse :: "('a \<Rightarrow> 'e + nat) \<Rightarrow> 'a list \<Rightarrow> 'e + 'a list" where
  "sorted_reverse key xs =
     (case decorate key xs of
        Inl e \<Rightarrow> Inl e
      | Inr kvs \<Rightarrow> Inr (map fst (rev (sort_key snd (rev kvs)))))"

text \<open>
  \<^verbatim>\<open>xs[:n]\<close>: the first \<open>n\<close> elements when \<open>n\<close> is not negative; a negative \<open>n\<close> counts
  from the end, so that \<^verbatim>\<open>xs[:-k]\<close> drops the last \<open>k\<close> elements.
\<close>

definition slice_to :: "'a list \<Rightarrow> int \<Rightarrow> 'a list" where
  "slice_to xs n = (if 0 \<le> n then take (nat n) xs else take (nat (int (length xs) + n)) xs)"

section \<open>Keyword extraction\<close>

definition stop_words :: "string list" where
  "stop_words =
     [''the'', ''and'', ''of'', ''to'', ''in'', ''is'', ''it'', ''that'', ''for'',
      ''you'', ''was'', ''on'', ''are'', ''with'', ''as'', ''at'', ''be'',
      ''this'', ''have'', ''from'', ''or'', ''an'', ''by'', ''not'']"

definition filtered_words :: "string \<Rightarrow> string list" where
  "filtered_words text =
     filter (\<lambda>word. word \<notin> set stop_words \<and> \<not> isdigit word) (findall_words3 (lower text))"

definition word_scores :: "'c list list \<Rightarrow> ('c list \<times> nat) list" where
  "word_scores ws =
     foldl (\<lambda>d (word, count). AList.update word (count * length word) d) [] (Counter ws)"

definition extract_keywords :: "string \<Rightarrow> int \<Rightarrow> py_error + string list" where
  "extract_keywords text top_n =
     (let scores = word_scores (filtered_words text)
      in case sorted_reverse (getitem scores) (map fst scores) of
           Inl e \<Rightarrow> Inl e
         | Inr ranked \<Rightarrow> Inr (slice_to ranked top_n))"


subsection \<open>The keyword extractor as the specification words it\<close>

text \<open>
  The reference computation of the specification: lower-case the text, take the tokens of
  word characters of length at least 3, drop the stop words and the purely numeric tokens,
  count each distinct token, score it \<open>frequency * length\<close>, and sort the distinct tokens by
  descending score with ties in first-encounter order. \<open>first_seen\<close> lists the distinct
  elements of a list in the order of their first occurrence; the sort is the stable
  insertion sort of the library on the negated score.
\<close>

definition first_seen :: "'a list \<Rightarrow> 'a list" where
  "first_seen xs = rev (remdups (rev xs))"

definition spec_tokens :: "string \<Rightarrow> string list" where
  "spec_tokens text =
     filter (\<lambda>t. \<not> isdigit t)
       (filter (\<lambda>t. t \<notin> set stop_words) (findall_words3 (lower text)))"

definition spec_score :: "'c list list \<Rightarrow> 'c list \<Rightarrow> nat" where
  "spec_score toks t = count_list toks t * length t"

definition spec_ranked :: "string \<Rightarrow> string list" where
  "spec_ranked text =
     (let toks = spec_tokens text
      in sort_key (\<lambda>t. - int (spec_score toks t)) (first_seen toks))"

subsection \<open>Keyword extraction over any character tables\<close>

text \<open>
  The tables of the interpreter: \<open>str_lower\<close> is \<^verbatim>\<open>str.lower\<close>, \<open>re_word\<close> the class
  \<^verbatim>\<open>\w\<close> (which also fixes \<^verbatim>\<open>\b\<close>), \<open>chr_isdigit\<close> and \<open>chr_isspace\<close> the properties
  behind \<^verbatim>\<open>str.isdigit\<close> and \<^verbatim>\<open>str.isspace\<close>, and \<open>of_ascii\<close> the code point of an ASCII
  character, for the literals of the source.
\<close>

record 'c unicode =
  str_lower :: "'c list \<Rightarrow> 'c list"
  re_word :: "'c \<Rightarrow> bool"
  chr_isdigit :: "'c \<Rightarrow> bool"
  chr_isspace :: "'c \<Rightarrow> bool"
  of_ascii :: "char \<Rightarrow> 'c"

definition literal :: "'c unicode \<Rightarrow> string \<Rightarrow> 'c list" where
  "literal u s = map (of_ascii u) s"

definition isdigit_u :: "'c unicode \<Rightarrow> 'c list \<Rightarrow> bool" where
  "isdigit_u u s = (s \<noteq> [] \<and> list_all (chr_isdigit u) s)"

definition findall_words3_u :: "'c unicode \<Rightarrow> 'c list \<Rightarrow> 'c list list" where
  "findall_words3_u u s =
     filter (\<lambda>w. 3 \<le> length w) (filter nonempty (split_on (\<lambda>c. \<not> re_word u c) s))"

definition filtered_words_u :: "'c unicode \<Rightarrow> 'c list \<Rightarrow> 'c list list" where
  "filtered_words_u u text =
     filter (\<lambda>word. word \<notin> set (map (literal u) stop_words) \<and> \<not> isdigit_u u word)
       (findall_words3_u u (str_lower u text))"

text \<open>\<^verbatim>\<open>d[k]\<close> for any type of key: \<open>Inl k\<close> is \<^verbatim>\<open>KeyError(k)\<close>.\<close>

definition getitem_u :: "('k \<times> 'v) list \<Rightarrow> 'k \<Rightarrow> 'k + 'v" where
  "getitem_u d k = (case map_of d k of None \<Rightarrow> Inl k | Some v \<Rightarrow> Inr v)"

definition extract_keywords_u :: "'c unicode \<Rightarrow> 'c list \<Rightarrow> int \<Rightarrow> 'c list + 'c list list" where
  "extract_keywords_u u text top_n =
     (let scores = word_scores (filtered_words_u u text)
      in case sorted_reverse (getitem_u scores) (map fst scores) of
           Inl k \<Rightarrow> Inl k
         | Inr ranked \<Rightarrow> Inr (slice_to ranked top_n))"

text \<open>The reference computation of the specification, over the same tables.\<close>

definition spec_tokens_u :: "'c unicode \<Rightarrow> 'c list \<Rightarrow> 'c list list" where
  "spec_tokens_u u text =
     filter (\<lambda>t. \<not> isdigit_u u t)
       (filter (\<lambda>t. t \<notin> set (map (literal u) stop_words))
          (findall_words3_u u (str_lower u text)))"

definition spec_ranked_u :: "'c unicode \<Rightarrow> 'c list \<Rightarrow> 'c list list" where
  "spec_ranked_u u text =
     (let toks = spec_tokens_u u text
      in sort_key (\<lambda>t. - int (spec_score toks t)) (first_seen toks))"

definition spec_extract_keywords_u :: "'c unicode \<Rightarrow> 'c list \<Rightarrow> int \<Rightarrow> 'c list list" where
  "spec_extract_keywords_u u text top_n = take (nat top_n) (spec_ranked_u u text)"

text \<open>
  The tables of ASCII text, and tables over code points that add to ASCII the letter
  \<^verbatim>\<open>U+00E9\<close> (e with acute, 233) with its capital \<^verbatim>\<open>U+00C9\<close> (201), both word characters,
  the capital lowered to the small letter, and the no-break space \<^verbatim>\<open>U+00A0\<close> (160), a
  white space.
\<close>

definition ascii :: "char unicode" where
  "ascii = \<lparr>str_lower = lower, re_word = is_word_char, chr_isdigit = isdigit_char,
            chr_isspace = isspace, of_ascii = (\<lambda>c. c)\<rparr>"

definition ascii_and_e_acute :: "nat unicode" where
  "ascii_and_e_acute =
     \<lparr>str_lower = map (\<lambda>n. if (65 \<le> n \<and> n \<le> 90) \<or> n = 201 then n + 32 else n),
      re_word = (\<lambda>n. (48 \<le> n \<and> n \<le> 57) \<or> (65 \<le> n \<and> n \<le> 90) \<or> n = 95 \<or>
                       (97 \<le> n \<and> n \<le> 122) \<or> n = 201 \<or> n = 233),
      chr_isdigit = (\<lambda>n. 48 \<le> n \<and> n \<le> 57),
      chr_isspace = (\<lambda>n. (9 \<le> n \<and> n \<le> 13) \<or> (28 \<le> n \<and> n \<le> 32) \<or> n = 160),
      of_ascii = of_char\<rparr>"

text \<open>The text \<^verbatim>\<open>CAF\<close>, \<^verbatim>\<open>U+00C9\<close>, \<^verbatim>\<open> bar caf\<close>, \<^verbatim>\<open>U+00E9\<close> as code points.\<close>

definition cafe_bar :: "nat list" where
  "cafe_bar = map of_char ''CAF'' @ [201] @ map of_char '' bar caf'' @ [233]"

section \<open>Readability\<close>

text \<open>
  A Python \<^verbatim>\<open>float\<close> is modelled by the exact rational it approximates: \<^verbatim>\<open>a / b\<close> on
  integers is the exact quotient, and \<^verbatim>\<open>round(x, 1)\<close> is the nearest multiple of \<open>1/10\<close>,
  an exact tie going to the even neighbour; a field of a report holds that multiple. The
  binary64 quotient is the exact one rounded to 53 bits, so the comparisons with 15 and 20
  give the same answer for fewer than \<open>2^49\<close> sentences, and \<^verbatim>\<open>round\<close> gives the same
  multiple of \<open>1/10\<close> for fewer than \<open>2^48\<close> words unless the exact quotient lies midway
  between two multiples of \<open>1/10\<close>: there the binary64 error decides the neighbour (for
  \<open>7/20\<close> the code gives 0.3 and the model \<open>2/5\<close>). No statement below depends on the
  neighbour taken at such a tie, and the inputs evaluated below are not ties.
\<close>

record readability_report =
  word_count :: nat
  sentence_count :: nat
  avg_sentence_length :: rat
  avg_word_length :: rat
  reading_level :: string

definition round_half_even :: "rat \<Rightarrow> int" where
  "round_half_even x =
     (let f = \<lfloor>x\<rfloor>; d = x - of_int f
      in if d < 1 / 2 then f else if 1 / 2 < d then f + 1 else if even f then f else f + 1)"

definition py_round1 :: "rat \<Rightarrow> rat" where
  "py_round1 x = of_int (round_half_even (x * 10)) / 10"

definition calculate_readability :: "string \<Rightarrow> readability_report" where
  "calculate_readability text =
     (let sentences = split_on (\<lambda>c. c \<in> set ''.!?'') text;
          words = split_ws text;
          wc = length words;
          sc = length (filter (\<lambda>s. strip s \<noteq> []) sentences);
          asl = (if 0 < sc then of_nat wc / of_nat sc else 0);
          awl = (if 0 < wc then of_nat (sum_list (map length words)) / of_nat wc else 0)
      in \<lparr>word_count = wc,
          sentence_count = sc,
          avg_sentence_length = py_round1 asl,
          avg_word_length = py_round1 awl,
          reading_level =
            (if 20 < asl then ''College'' else if 15 < asl then ''High School'' else ''Easy'')\<rparr>)"

text \<open>
  The thresholds as the specification gives them, and the two ratios of a report's own
  counts before rounding.
\<close>

definition spec_reading_level :: "rat \<Rightarrow> string" where
  "spec_reading_level a =
     (if 20 < a then ''College'' else if 15 < a then ''High School'' else ''Easy'')"

definition words_per_sentence :: "readability_report \<Rightarrow> rat" where
  "words_per_sentence r =
     (if 0 < sentence_count r then of_nat (word_count r) / of_nat (sentence_count r) else 0)"

definition mean_word_length :: "string \<Rightarrow> rat" where
  "mean_word_length text =
     (if 0 < length (split_ws text)
      then of_nat (sum_list (map length (split_ws text))) / of_nat (length (split_ws text))
      else 0)"

text \<open>
  Two texts for the thresholds: one sentence of 15 words, and 21 sentences of 316 words
  in all (twenty of 15 words and one of 16).
\<close>

definition fifteen_words :: string where
  "fifteen_words = ''w w w w w w w w w w w w w w w.''"

definition long_text :: string where
  "long_text = concat (replicate 20 ''w w w w w w w w w w w w w w w. '')
                 @ ''w w w w w w w w w w w w w w w w.''"

subsection \<open>Readability over any character tables\<close>

definition split_ws_u :: "'c unicode \<Rightarrow> 'c list \<Rightarrow> 'c list list" where
  "split_ws_u u s = filter nonempty (split_on (chr_isspace u) s)"

definition strip_u :: "'c unicode \<Rightarrow> 'c list \<Rightarrow> 'c list" where
  "strip_u u s = rev (dropWhile (chr_isspace u) (rev (dropWhile (chr_isspace u) s)))"

definition calculate_readability_u :: "'c unicode \<Rightarrow> 'c list \<Rightarrow> readability_report" where
  "calculate_readability_u u text =
     (let sentences = split_on (\<lambda>c. c \<in> set (literal u ''.!?'')) text;
          words = split_ws_u u text;
          wc = length words;
          sc = length (filter (\<lambda>s. strip_u u s \<noteq> []) sentences);
          asl = (if 0 < sc then of_nat wc / of_nat sc else 0);
          awl = (if 0 < wc then of_nat (sum_list (map length words)) / of_nat wc else 0)
      in \<lparr>word_count = wc,
          sentence_count = sc,
          avg_sentence_length = py_round1 asl,
          avg_word_length = py_round1 awl,
          reading_level =
            (if 20 < asl then ''College'' else if 15 < asl then ''High School'' else ''Easy'')\<rparr>)"

definition mean_word_length_u :: "'c unicode \<Rightarrow> 'c list \<Rightarrow> rat" where
  "mean_word_length_u u text =
     (if 0 < length (split_ws_u u text)
      then of_nat (sum_list (map length (split_ws_u u text))) / of_nat (length (split_ws_u u text))
      else 0)"

text \<open>
  The text \<^verbatim>\<open>a\<close>, \<^verbatim>\<open>U+00A0\<close>, \<^verbatim>\<open>b c.\<close> as code points: three words in one sentence.
\<close>

definition nbsp_text :: "nat list" where
  "nbsp_text = map of_char ''a'' @ [160] @ map of_char ''b c.''"

section \<open>Meta tags\<close>



section \<open>Configuration, search and competitor analysis\<close>

text \<open>
  \<^verbatim>\<open>Config\<close> reads two environment variables: \<^verbatim>\<open>GOOGLE_API_KEY\<close> is \<^verbatim>\<open>None\<close> when unset,
  \<^verbatim>\<open>GOOGLE_CSE_ID\<close> is the empty string when unset.
\<close>

record config =
  GOOGLE_API_KEY :: "string option"
  GOOGLE_CSE_ID :: string

text \<open>
  The libraries \<^verbatim>\<open>requests\<close>, \<^verbatim>\<open>bs4\<close> and \<^verbatim>\<open>pandas\<close> and the network are outside the
  repository; they are parameters of the model, collected in a \<open>world\<close>:
  \<^item> \<open>http_get\<close> is \<^verbatim>\<open>requests.get\<close>: it raises or returns a response. The reply is a
    function of the request, so the network does not change during one call.
  \<^item> \<open>html_parser\<close> is \<^verbatim>\<open>BeautifulSoup(text, 'html.parser')\<close>, reduced to what the code
    reads off the tree: \<^verbatim>\<open>soup.title\<close> (\<open>None\<close>, or a tag whose \<^verbatim>\<open>.string\<close> is a string or
    \<^verbatim>\<open>None\<close>), \<^verbatim>\<open>soup.find('h1')\<close> (\<open>None\<close>, or a tag with its \<^verbatim>\<open>get_text()\<close>), the first
    \<^verbatim>\<open>meta\<close> tag named \<^verbatim>\<open>description\<close> (\<open>None\<close>, or a tag with or without a
    \<^verbatim>\<open>content\<close> attribute) and \<^verbatim>\<open>soup.get_text()\<close>. A tag is truthy.
  The search reply is well-typed JSON: \<^verbatim>\<open>response.json()\<close> raises, or is an object with
  or without a list \<^verbatim>\<open>items\<close> of objects, whose \<^verbatim>\<open>link\<close>, when present, is a string.
  What the code sends, prints and sleeps is recorded as a list of events, in order; a
  returned table (\<^verbatim>\<open>pd.DataFrame\<close> of a list of rows) is the list of its rows.
\<close>

datatype pyval = PStr string | PInt int | PNone

record request =
  req_url :: string
  req_params :: "(string \<times> pyval) list"
  req_headers :: "(string \<times> string) list"
  req_timeout :: "nat option"

record search_item =
  link :: "string option"
  rank :: "pyval option"

record response =
  resp_status_code :: int
  resp_text :: string
  resp_json :: "py_error + search_item list option"

record soup =
  soup_title :: "string option option"
  soup_h1 :: "string option"
  soup_meta_description :: "string option option"
  soup_text :: string

record world =
  http_get :: "request \<Rightarrow> py_error + response"
  html_parser :: "string \<Rightarrow> py_error + soup"

datatype event = Request request | Print string | Sleep nat

record competitor_record =
  URL :: string
  Title :: "string option"
  H1 :: string
  Meta_Description :: string
  Word_Count :: nat
  Rank :: pyval

definition search_request :: "config \<Rightarrow> string \<Rightarrow> int \<Rightarrow> request" where
  "search_request cfg query num_results =
     \<lparr>req_url = ''https://www.googleapis.com/customsearch/v1'',
      req_params =
        [(''key'', case GOOGLE_API_KEY cfg of None \<Rightarrow> PNone | Some k \<Rightarrow> PStr k),
         (''cx'', PStr (GOOGLE_CSE_ID cfg)),
         (''q'', PStr query),
         (''num'', PInt num_results)],
      req_headers = [],
      req_timeout = None\<rparr>"

definition get_google_search_results ::
    "config \<Rightarrow> world \<Rightarrow> string \<Rightarrow> int \<Rightarrow> search_item list \<times> event list" where
  "get_google_search_results cfg w query num_results =
     (if GOOGLE_CSE_ID cfg = [] then ([], [])
      else
        let req = search_request cfg query num_results
        in case http_get w req of
             Inl e \<Rightarrow>
               ([], [Request req, Print (''Error fetching Google results: '' @ str_of_error e)])
           | Inr response \<Rightarrow>
               if resp_status_code response = 200 then
                 (case resp_json response of
                    Inl e \<Rightarrow>
                      ([], [Request req,
                            Print (''Error fetching Google results: '' @ str_of_error e)])
                  | Inr None \<Rightarrow> ([], [Request req])
                  | Inr (Some items) \<Rightarrow> (items, [Request req]))
               else ([], [Request req]))"

definition user_agent :: string where
  "user_agent = ''Mozilla/5.0 (Windows NT 10.0; Win64; x64) AppleWebKit/537.36 (KHTML, like Gecko) Chrome/91.0.4472.124 Safari/537.36''"

definition page_request :: "string \<Rightarrow> request" where
  "page_request url =
     \<lparr>req_url = url, req_params = [], req_headers = [(''User-Agent'', user_agent)],
      req_timeout = Some 10\<rparr>"

text \<open>\<^verbatim>\<open>item.get('link', '')\<close> and \<^verbatim>\<open>item.get('rank', '')\<close>.\<close>

definition item_link :: "search_item \<Rightarrow> string" where
  "item_link item = (case link item of None \<Rightarrow> [] | Some u \<Rightarrow> u)"

definition item_rank :: "search_item \<Rightarrow> pyval" where
  "item_rank item = (case rank item of None \<Rightarrow> PStr [] | Some r \<Rightarrow> r)"

text \<open>
  The body of the \<^verbatim>\<open>try\<close> in the loop of \<^verbatim>\<open>analyze_competitors\<close>, for one search result:
  the row it appends, or the exception it raises. \<^verbatim>\<open>meta_desc['content']\<close> raises
  \<^verbatim>\<open>KeyError\<close> when the tag has no such attribute.
\<close>

definition analyze_page :: "world \<Rightarrow> search_item \<Rightarrow> py_error + competitor_record" where
  "analyze_page w item =
     (let url = item_link item
      in case http_get w (page_request url) of
           Inl e \<Rightarrow> Inl e
         | Inr response \<Rightarrow>
             (case html_parser w (resp_text response) of
                Inl e \<Rightarrow> Inl e
              | Inr soup \<Rightarrow>
                  let title = (case soup_title soup of None \<Rightarrow> Some ''No title'' | Some s \<Rightarrow> s);
                      h1 = (case soup_h1 soup of None \<Rightarrow> ''No H1'' | Some t \<Rightarrow> t)
                  in case (case soup_meta_description soup of
                             None \<Rightarrow> Inr ''No meta description''
                           | Some None \<Rightarrow> Inl (KeyError ''content'')
                           | Some (Some c) \<Rightarrow> Inr c) of
                       Inl e \<Rightarrow> Inl e
                     | Inr meta_desc \<Rightarrow>
                         Inr \<lparr>URL = url, Title = title, H1 = h1,
                              Meta_Description = meta_desc,
                              Word_Count = length (split_ws (soup_text soup)),
                              Rank = item_rank item\<rparr>))"

text \<open>
  The loop: a row appended and a sleep of two seconds on success; on an exception the
  message is printed and the loop goes on with the next result.
\<close>

fun analyze_loop ::
    "world \<Rightarrow> search_item list \<Rightarrow> competitor_record list \<Rightarrow> event list
       \<Rightarrow> competitor_record list \<times> event list" where
  "analyze_loop w [] competitor_data trace = (competitor_data, trace)"
| "analyze_loop w (item # items) competitor_data trace =
     (let url = item_link item; sent = trace @ [Request (page_request url)]
      in case analyze_page w item of
           Inr row \<Rightarrow> analyze_loop w items (competitor_data @ [row]) (sent @ [Sleep 2])
         | Inl e \<Rightarrow>
             analyze_loop w items competitor_data
               (sent @ [Print (''Error analyzing '' @ url @ '': '' @ str_of_error e)]))"

definition analyze_competitors ::
    "config \<Rightarrow> world \<Rightarrow> string \<Rightarrow> int \<Rightarrow> competitor_record list \<times> event list" where
  "analyze_competitors cfg w query num_competitors =
     (case get_google_search_results cfg w query num_competitors of
        (results, trace) \<Rightarrow> analyze_loop w results [] trace)"

text \<open>The row of a search result, when its page gives one.\<close>

definition page_row :: "world \<Rightarrow> search_item \<Rightarrow> competitor_record option" where
  "page_row w item = (case analyze_page w item of Inl e \<Rightarrow> None | Inr row \<Rightarrow> Some row)"

subsection \<open>A small world\<close>

text \<open>
  Three configurations, and two networks in which the search returns three results: the
  page of the first has no title, no \<^verbatim>\<open>h1\<close> and no meta description, the second times
  out, and the third has a title and a description \<^verbatim>\<open>meta\<close> tag, with a \<^verbatim>\<open>content\<close>
  attribute in \<open>small_world\<close> and without one in \<open>small_world_no_content\<close>.
\<close>

definition no_credentials :: config where
  "no_credentials = \<lparr>GOOGLE_API_KEY = None, GOOGLE_CSE_ID = []\<rparr>"

definition cse_id_only :: config where
  "cse_id_only = \<lparr>GOOGLE_API_KEY = None, GOOGLE_CSE_ID = ''cx1''\<rparr>"

definition full_credentials :: config where
  "full_credentials = \<lparr>GOOGLE_API_KEY = Some ''k1'', GOOGLE_CSE_ID = ''cx1''\<rparr>"

definition item_a :: search_item where
  "item_a = \<lparr>link = Some ''http://a'', rank = None\<rparr>"

definition item_b :: search_item where
  "item_b = \<lparr>link = Some ''http://b'', rank = None\<rparr>"

definition item_c :: search_item where
  "item_c = \<lparr>link = Some ''http://c'', rank = Some (PInt 3)\<rparr>"

definition small_net :: "string \<Rightarrow> request \<Rightarrow> py_error + response" where
  "small_net html_c req =
     (if req_url req = ''https://www.googleapis.com/customsearch/v1'' then
        Inr \<lparr>resp_status_code = 200, resp_text = [],
             resp_json = Inr (Some [item_a, item_b, item_c])\<rparr>
      else if req_url req = ''http://a'' then
        Inr \<lparr>resp_status_code = 200, resp_text = ''<p>one two</p>'',
             resp_json = Inl (ValueError [])\<rparr>
      else if req_url req = ''http://c'' then
        Inr \<lparr>resp_status_code = 200, resp_text = html_c, resp_json = Inl (ValueError [])\<rparr>
      else Inl (RequestException ''timed out''))"

definition bare_soup :: soup where
  "bare_soup = \<lparr>soup_title = None, soup_h1 = None, soup_meta_description = None,
                 soup_text = ''one two''\<rparr>"

definition small_parser :: "string \<Rightarrow> py_error + soup" where
  "small_parser html =
     (if html = ''<p>one two</p>'' then Inr bare_soup
      else if html = ''<title>C</title><meta name=description content=c>'' then
        Inr \<lparr>soup_title = Some (Some ''C''), soup_h1 = None,
             soup_meta_description = Some (Some ''c''), soup_text = ''C''\<rparr>
      else if html = ''<title>C</title><meta name=description>'' then
        Inr \<lparr>soup_title = Some (Some ''C''), soup_h1 = None,
             soup_meta_description = Some None, soup_text = ''C''\<rparr>
      else Inr \<lparr>soup_title = None, soup_h1 = None, soup_meta_description = None,
                soup_text = []\<rparr>)"

definition small_world :: world where
  "small_world =
     \<lparr>http_get = small_net ''<title>C</title><meta name=description content=c>'',
      html_parser = small_parser\<rparr>"

definition small_world_no_content :: world where
  "small_world_no_content =
     \<lparr>http_get = small_net ''<title>C</title><meta name=description>'',
      html_parser = small_parser\<rparr>"





section \<open>Properties of keyword extraction\<close>

lemma first_seen_snoc:
  "first_seen (xs @ [x]) = (if x \<in> set xs then first_seen xs else first_seen xs @ [x])"
  by (simp add: first_seen_def)

lemma set_first_seen: "set (first_seen xs) = set xs"
  by (simp add: first_seen_def)

lemma distinct_first_seen: "distinct (first_seen xs)"
  by (simp add: first_seen_def)

lemma update_map_present:
  "distinct ks \<Longrightarrow> k \<in> set ks \<Longrightarrow>
   AList.update k v (map (\<lambda>w. (w, g w)) ks) = map (\<lambda>w. (w, if w = k then v else g w)) ks"
  by (induction ks) (auto simp: AList.update_triv)

lemma update_map_absent:
  "k \<notin> set ks \<Longrightarrow>
   AList.update k v (map (\<lambda>w. (w, g w)) ks) = map (\<lambda>w. (w, g w)) ks @ [(k, v)]"
  by (induction ks) auto

lemma map_of_map_key:
  "map_of (map (\<lambda>w. (w, g w)) ks) k = (if k \<in> set ks then Some (g k) else None)"
  by (induction ks) auto

lemma Counter_snoc:
  "Counter (ws @ [w]) = AList.update w (dict_get (Counter ws) w 0 + 1) (Counter ws)"
  by (simp add: Counter_def)

text \<open>
  The counter holds the distinct elements in the order of their first occurrence, each
  with the number of its occurrences.
\<close>

lemma Counter_eq: "Counter ws = map (\<lambda>w. (w, count_list ws w)) (first_seen ws)"
proof (induction ws rule: rev_induct)
  case Nil
  show ?case by (simp add: Counter_def first_seen_def)
next
  case (snoc w ws)
  let ?d = "map (\<lambda>k. (k, count_list ws k)) (first_seen ws)"
  show ?case
  proof (cases "w \<in> set ws")
    case True
    then have get: "dict_get ?d w 0 = count_list ws w"
      by (simp add: dict_get_def map_of_map_key set_first_seen)
    have "AList.update w (count_list ws w + 1) ?d =
          map (\<lambda>k. (k, if k = w then count_list ws w + 1 else count_list ws k)) (first_seen ws)"
      using True by (simp add: update_map_present distinct_first_seen set_first_seen)
    then show ?thesis
      using True by (simp add: Counter_snoc snoc.IH get first_seen_snoc cong: map_cong)
  next
    case False
    then have get: "dict_get ?d w 0 = 0"
      by (simp add: dict_get_def map_of_map_key set_first_seen)
    have "AList.update w (Suc 0) ?d = ?d @ [(w, Suc 0)]"
      using False by (simp add: update_map_absent set_first_seen)
    then show ?thesis
      using False by (auto simp: Counter_snoc snoc.IH get first_seen_snoc set_first_seen)
  qed
qed

lemma foldl_update_distinct:
  "distinct (map fst kvs) \<Longrightarrow> set (map fst d) \<inter> set (map fst kvs) = {} \<Longrightarrow>
   foldl (\<lambda>d (k, c). AList.update k (h k c) d) d kvs = d @ map (\<lambda>(k, c). (k, h k c)) kvs"
proof (induction kvs arbitrary: d)
  case Nil
  show ?case by simp
next
  case (Cons p kvs)
  obtain k c where p: "p = (k, c)" by (cases p)
  have absent: "k \<notin> fst ` set d" using Cons.prems(2) p by auto
  have upd: "AList.update k (h k c) d = d @ [(k, h k c)]"
    using absent by (induction d) auto
  have "foldl (\<lambda>d (k, c). AList.update k (h k c) d) (d @ [(k, h k c)]) kvs
        = (d @ [(k, h k c)]) @ map (\<lambda>(k, c). (k, h k c)) kvs"
    using Cons.prems p by (intro Cons.IH) auto
  then show ?case by (simp add: p upd)
qed

lemma word_scores_eq:
  "word_scores ws = map (\<lambda>w. (w, count_list ws w * length w)) (first_seen ws)"
proof -
  have "distinct (map fst (Counter ws))"
    by (simp add: Counter_eq comp_def distinct_first_seen)
  then have "foldl (\<lambda>d (k, c). AList.update k (c * length k) d) [] (Counter ws)
             = [] @ map (\<lambda>(k, c). (k, c * length k)) (Counter ws)"
    by (intro foldl_update_distinct) simp_all
  then show ?thesis by (simp add: word_scores_def Counter_eq comp_def)
qed

text \<open>No lookup of a score fails: every key that is looked up is a key of the dictionary.\<close>

lemma decorate_getitem:
  "distinct ks \<Longrightarrow> set js \<subseteq> set ks \<Longrightarrow>
   decorate (getitem (map (\<lambda>w. (w, g w)) ks)) js = Inr (map (\<lambda>w. (w, g w)) js)"
  by (induction js) (auto simp: getitem_def map_of_map_key)

lemma insort_key_map:
  "insort_key g (h x) (map h xs) = map h (insort_key (\<lambda>x. g (h x)) x xs)"
  by (induction xs) auto

lemma sort_key_map: "sort_key g (map h xs) = map h (sort_key (\<lambda>x. g (h x)) xs)"
  by (induction xs) (auto simp: insort_key_map)

lemma sorted_rev_neg:
  "sorted (map f ys) \<Longrightarrow> sorted (map (\<lambda>w. - int (f w)) (rev ys))"
  by (induction ys) (auto simp: sorted_append)

text \<open>
  Reversing, sorting in ascending order and reversing again is the stable sort in
  descending order: both are sorted, and both keep elements of equal key in their
  original order.
\<close>

lemma reverse_stable_sort:
  "rev (sort_key f (rev ks)) = sort_key (\<lambda>w. - int (f w)) ks"
proof (rule properties_for_sort_key [symmetric])
  show "mset (rev (sort_key f (rev ks))) = mset ks" by simp
next
  fix k
  have "filter (\<lambda>x. f x = f k) (sort_key f (rev ks)) = filter (\<lambda>x. f x = f k) (rev ks)"
    by (rule sort_key_stable)
  then have "filter (\<lambda>x. f x = f k) (rev (sort_key f (rev ks))) = filter (\<lambda>x. f x = f k) ks"
    by (simp add: rev_filter [symmetric] del: rev_filter)
  moreover have "(\<lambda>x. - int (f k) = - int (f x)) = (\<lambda>x. f x = f k)" by auto
  ultimately show "filter (\<lambda>x. - int (f k) = - int (f x)) (rev (sort_key f (rev ks)))
        = filter (\<lambda>x. - int (f k) = - int (f x)) ks"
    by simp
next
  show "sorted (map (\<lambda>w. - int (f w)) (rev (sort_key f (rev ks))))"
    by (rule sorted_rev_neg) simp
qed

lemma sorted_reverse_scores:
  "distinct ks \<Longrightarrow>
   sorted_reverse (getitem (map (\<lambda>w. (w, g w)) ks)) (map fst (map (\<lambda>w. (w, g w)) ks))
     = Inr (sort_key (\<lambda>w. - int (g w)) ks)"
proof -
  assume d: "distinct ks"
  have keys: "map fst (map (\<lambda>w. (w, g w)) ks) = ks" by (simp add: comp_def)
  have "sort_key snd (map (\<lambda>w. (w, g w)) (rev ks)) = map (\<lambda>w. (w, g w)) (sort_key g (rev ks))"
    by (simp add: sort_key_map)
  then have "map fst (rev (sort_key snd (rev (map (\<lambda>w. (w, g w)) ks))))
        = rev (sort_key g (rev ks))"
    by (simp add: rev_map comp_def)
  then have ranked: "map fst (rev (sort_key snd (rev (map (\<lambda>w. (w, g w)) ks))))
        = sort_key (\<lambda>w. - int (g w)) ks"
    by (simp only: reverse_stable_sort)
  have dec: "decorate (getitem (map (\<lambda>w. (w, g w)) ks)) ks = Inr (map (\<lambda>w. (w, g w)) ks)"
    using d by (simp add: decorate_getitem)
  show ?thesis
    unfolding sorted_reverse_def keys dec using ranked by simp
qed

lemma filtered_words_spec: "filtered_words text = spec_tokens text"
  by (simp add: filtered_words_def spec_tokens_def conj_commute)

text \<open>
  The code never raises, and returns the slice \<^verbatim>\<open>[:top_n]\<close> of the ranking of the
  specification.
\<close>

lemma extract_keywords_ranked:
  "extract_keywords text top_n = Inr (slice_to (spec_ranked text) top_n)"
proof -
  let ?toks = "spec_tokens text"
  have "sorted_reverse (getitem (word_scores ?toks)) (map fst (word_scores ?toks))
        = Inr (sort_key (\<lambda>t. - int (count_list ?toks t * length t)) (first_seen ?toks))"
    unfolding word_scores_eq by (rule sorted_reverse_scores) (rule distinct_first_seen)
  then show ?thesis
    by (simp add: extract_keywords_def filtered_words_spec spec_ranked_def spec_score_def Let_def)
qed

lemma distinct_spec_ranked: "distinct (spec_ranked text)"
  by (simp add: spec_ranked_def Let_def distinct_first_seen)

lemma spec_ranked_empty: "spec_ranked [] = []"
  by (simp add: spec_ranked_def spec_tokens_def findall_words3_def lower_def first_seen_def
      nonempty_def)

text \<open>
  Claim C1, for a count that is not negative: for every text and every \<open>n \<ge> 0\<close>,
  \<^verbatim>\<open>extract_keywords(text, n)\<close> returns (it does not raise) a list of length at most \<open>n\<close>.
\<close>

theorem extract_keywords_length:
  "0 \<le> n \<Longrightarrow> \<exists>ks. extract_keywords text n = Inr ks \<and> int (length ks) \<le> n"
  by (simp add: extract_keywords_ranked slice_to_def)

theorem extract_keywords_length_witness:
  "\<exists>ks. extract_keywords ''the cat sat on the mat'' 2 = Inr ks \<and> int (length ks) \<le> 2"
  using extract_keywords_length [of 2 "''the cat sat on the mat''"] by simp

text \<open>
  Claim C1 as stated for every integer fails for a negative one: \<^verbatim>\<open>xs[:-1]\<close> is \<open>xs\<close>
  without its last element, so \<^verbatim>\<open>extract_keywords("cat dog", -1)\<close> is \<^verbatim>\<open>['cat']\<close>, of
  length 1.
\<close>

theorem extract_keywords_length_counterexample:
  "extract_keywords ''cat dog'' (- 1) = Inr [''cat''] \<and> \<not> int (length [''cat'']) \<le> - 1"
  by code_simp

subsection \<open>Over any character tables\<close>

lemma decorate_getitem_u:
  "distinct ks \<Longrightarrow> set js \<subseteq> set ks \<Longrightarrow>
   decorate (getitem_u (map (\<lambda>w. (w, g w)) ks)) js = Inr (map (\<lambda>w. (w, g w)) js)"
  by (induction js) (auto simp: getitem_u_def map_of_map_key)

lemma sorted_reverse_scores_u:
  "distinct ks \<Longrightarrow>
   sorted_reverse (getitem_u (map (\<lambda>w. (w, g w)) ks)) (map fst (map (\<lambda>w. (w, g w)) ks))
     = Inr (sort_key (\<lambda>w. - int (g w)) ks)"
proof -
  assume d: "distinct ks"
  have keys: "map fst (map (\<lambda>w. (w, g w)) ks) = ks" by (simp add: comp_def)
  have "sort_key snd (map (\<lambda>w. (w, g w)) (rev ks)) = map (\<lambda>w. (w, g w)) (sort_key g (rev ks))"
    by (simp add: sort_key_map)
  then have "map fst (rev (sort_key snd (rev (map (\<lambda>w. (w, g w)) ks))))
        = rev (sort_key g (rev ks))"
    by (simp add: rev_map comp_def)
  then have ranked: "map fst (rev (sort_key snd (rev (map (\<lambda>w. (w, g w)) ks))))
        = sort_key (\<lambda>w. - int (g w)) ks"
    by (simp only: reverse_stable_sort)
  have dec: "decorate (getitem_u (map (\<lambda>w. (w, g w)) ks)) ks = Inr (map (\<lambda>w. (w, g w)) ks)"
    using d by (simp add: decorate_getitem_u)
  show ?thesis
    unfolding sorted_reverse_def keys dec using ranked by simp
qed

lemma filtered_words_u_spec: "filtered_words_u u text = spec_tokens_u u text"
  by (simp add: filtered_words_u_def spec_tokens_u_def conj_commute)

text \<open>
  Whatever the tables, the code never raises, and returns the slice \<^verbatim>\<open>[:top_n]\<close> of the
  ranking of the specification.
\<close>

lemma extract_keywords_u_ranked:
  "extract_keywords_u u text top_n = Inr (slice_to (spec_ranked_u u text) top_n)"
proof -
  let ?toks = "spec_tokens_u u text"
  have "sorted_reverse (getitem_u (word_scores ?toks)) (map fst (word_scores ?toks))
        = Inr (sort_key (\<lambda>t. - int (count_list ?toks t * length t)) (first_seen ?toks))"
    unfolding word_scores_eq by (rule sorted_reverse_scores_u) (rule distinct_first_seen)
  then show ?thesis
    by (simp add: extract_keywords_u_def filtered_words_u_spec spec_ranked_u_def spec_score_def
        Let_def)
qed

lemma distinct_spec_ranked_u: "distinct (spec_ranked_u u text)"
  by (simp add: spec_ranked_u_def Let_def distinct_first_seen)

lemma spec_ranked_u_empty: "str_lower u [] = [] \<Longrightarrow> spec_ranked_u u [] = []"
  by (simp add: spec_ranked_u_def spec_tokens_u_def findall_words3_u_def first_seen_def
      nonempty_def)

text \<open>
  The ranking is what the specification asks of it: the scores descend along it, and the
  tokens of one score stand in the order of their first occurrence in the text.
\<close>

lemma sorted_neg_rev:
  "sorted (map (\<lambda>t. - int (f t)) xs) \<Longrightarrow> sorted (rev (map (\<lambda>t. int (f t)) xs))"
  by (induction xs) (auto simp: sorted_append)

lemma spec_ranked_u_descending:
  "sorted (rev (map (\<lambda>t. int (spec_score (spec_tokens_u u text) t)) (spec_ranked_u u text)))"
  by (rule sorted_neg_rev) (simp add: spec_ranked_u_def Let_def)

lemma spec_ranked_u_ties:
  "filter (\<lambda>t. spec_score (spec_tokens_u u text) t = s) (spec_ranked_u u text)
     = filter (\<lambda>t. spec_score (spec_tokens_u u text) t = s) (first_seen (spec_tokens_u u text))"
proof -
  have "filter (\<lambda>t. - int (spec_score (spec_tokens_u u text) t) = - int s)
          (sort_key (\<lambda>t. - int (spec_score (spec_tokens_u u text) t))
             (first_seen (spec_tokens_u u text)))
        = filter (\<lambda>t. - int (spec_score (spec_tokens_u u text) t) = - int s)
            (first_seen (spec_tokens_u u text))"
    by (rule sort_key_stable)
  then show ?thesis
    by (simp add: spec_ranked_u_def Let_def)
qed

text \<open>The functions for ASCII text are the instances at the tables \<open>ascii\<close>.\<close>

lemma spec_ranked_ascii: "spec_ranked text = spec_ranked_u ascii text"
  by (simp add: spec_ranked_def spec_ranked_u_def spec_tokens_def spec_tokens_u_def
      findall_words3_def findall_words3_u_def isdigit_def isdigit_u_def literal_def ascii_def)

lemma extract_keywords_ascii:
  "extract_keywords text top_n
     = (case extract_keywords_u ascii text top_n of Inl k \<Rightarrow> Inl (KeyError k) | Inr ks \<Rightarrow> Inr ks)"
  by (simp add: extract_keywords_ranked extract_keywords_u_ranked spec_ranked_ascii)

lemma cafe_bar_keywords:
  "extract_keywords_u ascii_and_e_acute cafe_bar 10
     = Inr [map of_char ''caf'' @ [233], map of_char ''bar'']"
  by code_simp

text \<open>
  Claim C2, for a count that is not negative: for every text (over any character tables)
  and every \<open>top_n \<ge> 0\<close>, \<^verbatim>\<open>extract_keywords(text, top_n)\<close> is the reference computation
  of the specification: lower-case the text, take the tokens of word characters of length
  at least 3, drop the stop words and the purely numeric tokens, score each distinct token
  frequency times length, sort by descending score with ties in first-encounter order,
  return the first \<open>top_n\<close>. In particular the result has no duplicates, and the empty
  text (which \<^verbatim>\<open>str.lower\<close> leaves empty) yields the empty list.
\<close>

theorem extract_keywords_refines:
  "0 \<le> top_n \<Longrightarrow>
   extract_keywords_u u text top_n = Inr (spec_extract_keywords_u u text top_n) \<and>
   distinct (spec_extract_keywords_u u text top_n) \<and>
   (str_lower u [] = [] \<longrightarrow> extract_keywords_u u [] top_n = Inr [])"
  by (simp add: extract_keywords_u_ranked slice_to_def spec_extract_keywords_u_def
      distinct_spec_ranked_u spec_ranked_u_empty)

lemma ascii_example:
  "spec_extract_keywords_u ascii ''the cat sat on the mat'' 5 = [''cat'', ''sat'', ''mat'']"
  "str_lower ascii [] = []"
  by code_simp+

theorem extract_keywords_refines_witness:
  "(0::int) \<le> 5 \<and> str_lower ascii [] = [] \<and>
   extract_keywords_u ascii ''the cat sat on the mat'' 5 = Inr [''cat'', ''sat'', ''mat''] \<and>
   extract_keywords_u ascii [] 5 = Inr []"
  using extract_keywords_refines [of 5 ascii "''the cat sat on the mat''"] ascii_example
  by simp

text \<open>
  Claim C2 as stated for every \<open>top_n\<close> fails for a negative one: the first \<open>-2\<close> tokens
  of a ranking are none, and \<^verbatim>\<open>extract_keywords("the cat sat on the mat", -2)\<close> is
  \<^verbatim>\<open>['cat']\<close>, the ranking \<^verbatim>\<open>['cat', 'sat', 'mat']\<close> without its last two tokens.
\<close>

theorem extract_keywords_refines_counterexample:
  "extract_keywords_u ascii ''the cat sat on the mat'' (- 2) = Inr [''cat''] \<and>
   spec_extract_keywords_u ascii ''the cat sat on the mat'' (- 2) = []"
  by code_simp

section \<open>Properties of the readability report\<close>

lemma round_half_even_bounds: "\<bar>of_int (round_half_even x) - x\<bar> \<le> 1 / 2"
proof -
  define f where "f = \<lfloor>x\<rfloor>"
  have f: "of_int f \<le> x" "x < of_int f + 1"
    unfolding f_def by linarith+
  have r: "round_half_even x = (if x - of_int f < 1 / 2 then f
                                else if 1 / 2 < x - of_int f then f + 1
                                else if even f then f else f + 1)"
    unfolding f_def by (simp add: round_half_even_def Let_def)
  show ?thesis
    unfolding r using f by (auto split: if_splits)
qed

lemma round_half_even_le: "x \<le> of_int k \<Longrightarrow> round_half_even x \<le> k"
proof (cases "x = of_int k")
  case True
  then show ?thesis by (simp add: round_half_even_def)
next
  case False
  assume "x \<le> of_int k"
  with False have "x < of_int k" by simp
  then have "\<lfloor>x\<rfloor> < k" by (simp add: floor_less_iff)
  then show ?thesis by (auto simp: round_half_even_def Let_def)
qed

lemma round_half_even_ge: "of_int k < x \<Longrightarrow> k \<le> round_half_even x"
proof -
  assume "of_int k < x"
  then have "k \<le> \<lfloor>x\<rfloor>" by (simp add: le_floor_iff)
  then show ?thesis by (auto simp: round_half_even_def Let_def)
qed

text \<open>Rounding to one decimal moves a value by at most \<open>1/20\<close>, to a multiple of \<open>1/10\<close>.\<close>

lemma py_round1_near: "\<bar>py_round1 x - x\<bar> \<le> 1 / 20"
proof -
  define r :: rat where "r = of_int (round_half_even (x * 10))"
  have "\<bar>r - x * 10\<bar> \<le> 1 / 2"
    unfolding r_def by (rule round_half_even_bounds)
  then have "r - x * 10 \<le> 1 / 2" "x * 10 - r \<le> 1 / 2" by linarith+
  then have "r / 10 - x \<le> 1 / 20" "x - r / 10 \<le> 1 / 20" by linarith+
  then have "\<bar>r / 10 - x\<bar> \<le> 1 / 20" by linarith
  then show ?thesis by (simp add: py_round1_def r_def)
qed

lemma py_round1_tenth: "\<exists>k::int. py_round1 x = of_int k / 10"
  by (auto simp: py_round1_def)

text \<open>Rounding does not cross a whole number.\<close>

lemma py_round1_le: "x \<le> of_int k \<Longrightarrow> py_round1 x \<le> of_int k"
proof -
  assume "x \<le> of_int k"
  then have "x * 10 \<le> of_int (k * 10)" by simp
  then have "round_half_even (x * 10) \<le> k * 10" by (rule round_half_even_le)
  then have "(of_int (round_half_even (x * 10)) :: rat) \<le> of_int (k * 10)"
    by (simp only: of_int_le_iff)
  then show ?thesis by (simp add: py_round1_def field_simps)
qed

lemma py_round1_ge: "of_int k < x \<Longrightarrow> of_int k \<le> py_round1 x"
proof -
  assume "of_int k < x"
  then have "of_int (k * 10) < x * 10" by simp
  then have "k * 10 \<le> round_half_even (x * 10)" by (rule round_half_even_ge)
  then have "(of_int (k * 10) :: rat) \<le> of_int (round_half_even (x * 10))"
    by (simp only: of_int_le_iff)
  then show ?thesis by (simp add: py_round1_def field_simps)
qed

lemma report_fields:
  "word_count (calculate_readability text) = length (split_ws text)"
  "sentence_count (calculate_readability text)
     = length (filter (\<lambda>s. strip s \<noteq> []) (split_on (\<lambda>c. c \<in> set ''.!?'') text))"
  "avg_sentence_length (calculate_readability text)
     = py_round1 (words_per_sentence (calculate_readability text))"
  "avg_word_length (calculate_readability text) = py_round1 (mean_word_length text)"
  "reading_level (calculate_readability text)
     = spec_reading_level (words_per_sentence (calculate_readability text))"
  by (simp_all add: calculate_readability_def Let_def words_per_sentence_def
      mean_word_length_def spec_reading_level_def)

lemma level_of_rounded:
  assumes "py_round1 q \<noteq> 15" "py_round1 q \<noteq> 20"
  shows "spec_reading_level (py_round1 q) = spec_reading_level q"
proof -
  consider "20 < q" | "15 < q" "q \<le> 20" | "q \<le> 15" by linarith
  then show ?thesis
  proof cases
    case 1
    then have "20 \<le> py_round1 q" using py_round1_ge [of 20 q] by simp
    with assms have "20 < py_round1 q" by simp
    with 1 show ?thesis by (simp add: spec_reading_level_def)
  next
    case 2
    then have "py_round1 q \<le> 20" "15 \<le> py_round1 q"
      using py_round1_le [of q 20] py_round1_ge [of 15 q] by simp_all
    with assms have "\<not> 20 < py_round1 q" "15 < py_round1 q" by simp_all
    with 2 show ?thesis by (simp add: spec_reading_level_def)
  next
    case 3
    then have "py_round1 q \<le> 15" using py_round1_le [of q 15] by simp
    then have "\<not> 20 < py_round1 q" "\<not> 15 < py_round1 q" by simp_all
    with 3 show ?thesis by (simp add: spec_reading_level_def)
  qed
qed

lemma report_example:
  "calculate_readability ''Hello world. How are you?  Fine!''
     = \<lparr>word_count = 6, sentence_count = 3, avg_sentence_length = 2,
        avg_word_length = 43 / 10, reading_level = ''Easy''\<rparr>"
  by code_simp

lemma report_fifteen_words:
  "calculate_readability fifteen_words
     = \<lparr>word_count = 15, sentence_count = 1, avg_sentence_length = 15,
        avg_word_length = 11 / 10, reading_level = ''Easy''\<rparr>"
  by code_simp

lemma report_long_text:
  "calculate_readability long_text
     = \<lparr>word_count = 316, sentence_count = 21, avg_sentence_length = 15,
        avg_word_length = 11 / 10, reading_level = ''High School''\<rparr>"
  by code_simp

lemma long_text_ratio: "words_per_sentence (calculate_readability long_text) = 316 / 21"
  by (simp add: words_per_sentence_def report_long_text)

lemma long_text_rounded_level:
  "spec_reading_level (avg_sentence_length (calculate_readability long_text)) = ''Easy''"
  by (simp add: report_long_text spec_reading_level_def)

text \<open>
  Claim C3, for the ratio before rounding: in every report of \<^verbatim>\<open>calculate_readability\<close>
  the reading level is the threshold function (College above 20, High School above 15,
  Easy otherwise) of the ratio \<open>word_count / sentence_count\<close> of the report's own counts
  (0 without sentences); it is the same function of the rounded field
  \<open>avg_sentence_length\<close> whenever that field is neither 15.0 nor 20.0.
\<close>

theorem reading_level_function_of_ratio:
  "reading_level (calculate_readability text)
     = spec_reading_level (words_per_sentence (calculate_readability text)) \<and>
   (avg_sentence_length (calculate_readability text) \<noteq> 15 \<and>
    avg_sentence_length (calculate_readability text) \<noteq> 20 \<longrightarrow>
      reading_level (calculate_readability text)
        = spec_reading_level (avg_sentence_length (calculate_readability text)))"
  using level_of_rounded [of "words_per_sentence (calculate_readability text)"]
  by (simp add: report_fields)

theorem reading_level_function_of_ratio_witness:
  "avg_sentence_length (calculate_readability ''Hello world. How are you?  Fine!'') \<noteq> 15 \<and>
   avg_sentence_length (calculate_readability ''Hello world. How are you?  Fine!'') \<noteq> 20 \<and>
   reading_level (calculate_readability ''Hello world. How are you?  Fine!'')
     = spec_reading_level (avg_sentence_length
         (calculate_readability ''Hello world. How are you?  Fine!''))"
  using reading_level_function_of_ratio [of "''Hello world. How are you?  Fine!''"]
  by (simp add: report_example)

text \<open>
  Claim C3 as stated for the report's field fails: one sentence of 15 words and 21
  sentences of 316 words both report \<open>avg_sentence_length = 15.0\<close> (\<open>316 / 21\<close> is about
  15.05 and rounds to 15.0), the first with level Easy and the second with High School.
\<close>

theorem reading_level_counterexample:
  "avg_sentence_length (calculate_readability fifteen_words)
     = avg_sentence_length (calculate_readability long_text) \<and>
   reading_level (calculate_readability fifteen_words) = ''Easy'' \<and>
   reading_level (calculate_readability long_text) = ''High School'' \<and>
   reading_level (calculate_readability fifteen_words)
     \<noteq> reading_level (calculate_readability long_text)"
  by (simp add: report_fifteen_words report_long_text)

text \<open>
  Claim C4: \<^verbatim>\<open>calculate_readability("")\<close> reports \<open>word_count = 0\<close>, \<open>sentence_count = 0\<close>,
  \<open>avg_sentence_length = 0\<close>, \<open>avg_word_length = 0\<close> and \<open>reading_level = "Easy"\<close>.
\<close>

theorem readability_empty:
  "calculate_readability []
     = \<lparr>word_count = 0, sentence_count = 0, avg_sentence_length = 0, avg_word_length = 0,
        reading_level = ''Easy''\<rparr>"
  by code_simp

subsection \<open>Over any character tables\<close>

lemma report_fields_u:
  "word_count (calculate_readability_u u text) = length (split_ws_u u text)"
  "avg_sentence_length (calculate_readability_u u text)
     = py_round1 (words_per_sentence (calculate_readability_u u text))"
  "avg_word_length (calculate_readability_u u text) = py_round1 (mean_word_length_u u text)"
  "reading_level (calculate_readability_u u text)
     = spec_reading_level (words_per_sentence (calculate_readability_u u text))"
  by (simp_all add: calculate_readability_u_def Let_def words_per_sentence_def
      mean_word_length_u_def spec_reading_level_def)

text \<open>The report for ASCII text is the instance at the tables \<open>ascii\<close>.\<close>

lemma calculate_readability_ascii:
  "calculate_readability text = calculate_readability_u ascii text"
  by (simp add: calculate_readability_def calculate_readability_u_def split_ws_def
      split_ws_u_def strip_def strip_u_def literal_def ascii_def)

lemma long_text_u:
  "words_per_sentence (calculate_readability_u ascii long_text) = 316 / 21"
  "avg_sentence_length (calculate_readability_u ascii long_text) = 15"
  "reading_level (calculate_readability_u ascii long_text) = ''High School''"
  "spec_reading_level (avg_sentence_length (calculate_readability_u ascii long_text)) = ''Easy''"
  unfolding calculate_readability_ascii [symmetric]
  by (simp_all add: report_long_text words_per_sentence_def spec_reading_level_def)

lemma nbsp_report:
  "calculate_readability_u ascii_and_e_acute nbsp_text
     = \<lparr>word_count = 3, sentence_count = 1, avg_sentence_length = 3,
        avg_word_length = 13 / 10, reading_level = ''Easy''\<rparr>"
  by code_simp

text \<open>
  Claim C9: in every report (over any character tables) the fields \<open>avg_sentence_length\<close>
  and \<open>avg_word_length\<close> are the exact ratios rounded to one decimal place, that is, a
  multiple of \<open>1/10\<close> within \<open>1/20\<close> of the ratio (for a ratio midway between two
  multiples, such as \<open>7/20\<close>, either neighbour is such a rounding), while \<open>reading_level\<close>
  compares the ratio \<open>word_count / sentence_count\<close> before rounding with 20 and 15; so the
  level can differ from what the rounded field predicts: for 316 words in 21 sentences
  the field is 15.0, which predicts Easy, and the level is High School.
\<close>

theorem rounded_fields_unrounded_level:
  "\<bar>avg_sentence_length (calculate_readability_u u text)
      - words_per_sentence (calculate_readability_u u text)\<bar> \<le> 1 / 20 \<and>
   (\<exists>k::int. avg_sentence_length (calculate_readability_u u text) = of_int k / 10) \<and>
   \<bar>avg_word_length (calculate_readability_u u text) - mean_word_length_u u text\<bar> \<le> 1 / 20 \<and>
   (\<exists>k::int. avg_word_length (calculate_readability_u u text) = of_int k / 10) \<and>
   reading_level (calculate_readability_u u text)
     = spec_reading_level (words_per_sentence (calculate_readability_u u text)) \<and>
   words_per_sentence (calculate_readability_u ascii long_text) = 316 / 21 \<and>
   avg_sentence_length (calculate_readability_u ascii long_text) = 15 \<and>
   reading_level (calculate_readability_u ascii long_text) = ''High School'' \<and>
   spec_reading_level (avg_sentence_length (calculate_readability_u ascii long_text)) = ''Easy''"
proof (intro conjI)
  show "\<bar>avg_sentence_length (calculate_readability_u u text)
      - words_per_sentence (calculate_readability_u u text)\<bar> \<le> 1 / 20"
    unfolding report_fields_u(2) by (rule py_round1_near)
  show "\<exists>k::int. avg_sentence_length (calculate_readability_u u text) = of_int k / 10"
    unfolding report_fields_u(2) by (rule py_round1_tenth)
  show "\<bar>avg_word_length (calculate_readability_u u text) - mean_word_length_u u text\<bar> \<le> 1 / 20"
    unfolding report_fields_u(3) by (rule py_round1_near)
  show "\<exists>k::int. avg_word_length (calculate_readability_u u text) = of_int k / 10"
    unfolding report_fields_u(3) by (rule py_round1_tenth)
  show "reading_level (calculate_readability_u u text)
     = spec_reading_level (words_per_sentence (calculate_readability_u u text))"
    by (rule report_fields_u)
qed (rule long_text_u)+

section \<open>Properties of the meta tags\<close>





section \<open>Properties of the competitor analysis\<close>

text \<open>
  The loop returns its rows in the order of the search results, one for each result whose
  page gives a row, and only adds to the trace.
\<close>

lemma analyze_loop_rows:
  "fst (analyze_loop w items competitor_data trace)
     = competitor_data @ List.map_filter (page_row w) items"
proof (induction items arbitrary: competitor_data trace)
  case Nil
  show ?case by (simp add: List.map_filter_simps)
next
  case (Cons item items)
  show ?case
    by (cases "analyze_page w item")
       (simp_all add: Cons.IH List.map_filter_simps page_row_def Let_def)
qed

lemma analyze_loop_trace:
  "\<exists>rest. snd (analyze_loop w items competitor_data trace) = trace @ rest"
proof (induction items arbitrary: competitor_data trace)
  case Nil
  show ?case by simp
next
  case (Cons item items)
  show ?case
  proof (cases "analyze_page w item")
    case (Inl e)
    from Cons.IH [of competitor_data
        "(trace @ [Request (page_request (item_link item))])
           @ [Print (''Error analyzing '' @ item_link item @ '': '' @ str_of_error e)]"]
    show ?thesis using Inl by (auto simp: Let_def)
  next
    case (Inr row)
    from Cons.IH [of "competitor_data @ [row]"
        "(trace @ [Request (page_request (item_link item))]) @ [Sleep 2]"]
    show ?thesis using Inr by (auto simp: Let_def)
  qed
qed

lemma analyze_competitors_rows:
  "fst (analyze_competitors cfg w query n)
     = List.map_filter (page_row w) (fst (get_google_search_results cfg w query n))"
  by (simp add: analyze_competitors_def analyze_loop_rows split: prod.split)

lemma analyze_competitors_trace:
  "\<exists>more. snd (analyze_competitors cfg w query n)
            = snd (get_google_search_results cfg w query n) @ more"
proof (cases "get_google_search_results cfg w query n")
  case (Pair results trace)
  then show ?thesis
    using analyze_loop_trace [of w results "[]" trace] by (simp add: analyze_competitors_def)
qed

lemma search_unconfigured:
  "GOOGLE_CSE_ID cfg = [] \<Longrightarrow> get_google_search_results cfg w query n = ([], [])"
  by (simp add: get_google_search_results_def)

lemma search_configured:
  "GOOGLE_CSE_ID cfg \<noteq> [] \<Longrightarrow>
   \<exists>rest. snd (get_google_search_results cfg w query n)
            = Request (search_request cfg query n) # rest"
  by (auto simp: get_google_search_results_def Let_def split: sum.split option.split)

lemma fetch_failure_no_row:
  "http_get w (page_request (item_link item)) = Inl e \<Longrightarrow> page_row w item = None"
  by (simp add: page_row_def analyze_page_def)

lemma parse_failure_no_row:
  "http_get w (page_request (item_link item)) = Inr response \<Longrightarrow>
   html_parser w (resp_text response) = Inl e \<Longrightarrow> page_row w item = None"
  by (simp add: page_row_def analyze_page_def)

lemma content_missing_no_row:
  "http_get w (page_request (item_link item)) = Inr response \<Longrightarrow>
   html_parser w (resp_text response) = Inr soup \<Longrightarrow>
   soup_meta_description soup = Some None \<Longrightarrow> page_row w item = None"
  by (simp add: page_row_def analyze_page_def)

lemma parsed_page_row:
  "http_get w (page_request (item_link item)) = Inr response \<Longrightarrow>
   html_parser w (resp_text response) = Inr soup \<Longrightarrow>
   soup_meta_description soup \<noteq> Some None \<Longrightarrow>
   \<exists>row. page_row w item = Some row \<and> URL row = item_link item \<and>
     Title row = (case soup_title soup of None \<Rightarrow> Some ''No title'' | Some s \<Rightarrow> s) \<and>
     H1 row = (case soup_h1 soup of None \<Rightarrow> ''No H1'' | Some t \<Rightarrow> t) \<and>
     (soup_meta_description soup = None \<longrightarrow> Meta_Description row = ''No meta description'') \<and>
     Word_Count row = length (split_ws (soup_text soup)) \<and> Rank row = item_rank item"
  by (auto simp: page_row_def analyze_page_def Let_def split: option.split)

lemma map_filter_member:
  "x \<in> set xs \<Longrightarrow> f x = Some y \<Longrightarrow> y \<in> set (List.map_filter f xs)"
  by (induction xs) (auto simp: List.map_filter_simps split: option.split)

lemma small_world_search:
  "fst (get_google_search_results full_credentials small_world ''q'' 3) = [item_a, item_b, item_c]"
  by code_simp

lemma small_world_rows:
  "page_row small_world item_a
     = Some \<lparr>URL = ''http://a'', Title = Some ''No title'', H1 = ''No H1'',
              Meta_Description = ''No meta description'', Word_Count = 2, Rank = PStr []\<rparr>"
  "page_row small_world item_b = None"
  "page_row small_world item_c
     = Some \<lparr>URL = ''http://c'', Title = Some ''C'', H1 = ''No H1'',
              Meta_Description = ''c'', Word_Count = 1, Rank = PInt 3\<rparr>"
  by code_simp+

lemma small_world_timeout:
  "http_get small_world (page_request (item_link item_b)) = Inl (RequestException ''timed out'')"
  by code_simp

lemma small_world_page_a:
  "http_get small_world (page_request (item_link item_a))
     = Inr \<lparr>resp_status_code = 200, resp_text = ''<p>one two</p>'', resp_json = Inl (ValueError [])\<rparr>"
  "html_parser small_world ''<p>one two</p>'' = Inr bare_soup"
  "soup_title bare_soup = None" "soup_h1 bare_soup = None" "soup_meta_description bare_soup = None"
  by code_simp+

lemma item_a_found:
  "item_a \<in> set (fst (get_google_search_results full_credentials small_world ''q'' 3))"
  by (simp add: small_world_search)

lemma cse_id_only_trace:
  "snd (get_google_search_results cse_id_only small_world ''q'' 3)
     = [Request \<lparr>req_url = ''https://www.googleapis.com/customsearch/v1'',
                 req_params = [(''key'', PNone), (''cx'', PStr ''cx1''), (''q'', PStr ''q''),
                               (''num'', PInt 3)],
                 req_headers = [], req_timeout = None\<rparr>]"
  by code_simp

text \<open>
  Claim C5: with no search credentials configured (neither \<^verbatim>\<open>GOOGLE_API_KEY\<close> nor
  \<^verbatim>\<open>GOOGLE_CSE_ID\<close> is set), \<^verbatim>\<open>analyze_competitors\<close> returns no competitor record; it
  raises nothing and sends no request.
\<close>

theorem unconfigured_search_gives_no_rows:
  "GOOGLE_API_KEY cfg = None \<Longrightarrow> GOOGLE_CSE_ID cfg = [] \<Longrightarrow>
   analyze_competitors cfg w query n = ([], [])"
  by (simp add: analyze_competitors_def search_unconfigured)

theorem unconfigured_search_gives_no_rows_witness:
  "GOOGLE_API_KEY no_credentials = None \<and> GOOGLE_CSE_ID no_credentials = [] \<and>
   analyze_competitors no_credentials small_world ''seo tools'' 3 = ([], [])"
  using unconfigured_search_gives_no_rows [of no_credentials small_world "''seo tools''" 3]
  by (simp add: no_credentials_def)

text \<open>
  What the loop returns: the rows of the search results whose pages give one, in the
  order of the search results; no exception of a page reaches the caller. A page gives no
  row when the request raises, when the parser raises, or when reading the \<^verbatim>\<open>content\<close>
  of its description \<^verbatim>\<open>meta\<close> tag raises \<^verbatim>\<open>KeyError\<close>; every other page gives one.
\<close>

lemma rows_of_analyzed_pages:
  "fst (analyze_competitors cfg w query n)
     = List.map_filter (page_row w) (fst (get_google_search_results cfg w query n)) \<and>
   (\<forall>item e. http_get w (page_request (item_link item)) = Inl e \<longrightarrow> page_row w item = None) \<and>
   (\<forall>item response e. http_get w (page_request (item_link item)) = Inr response \<and>
       html_parser w (resp_text response) = Inl e \<longrightarrow> page_row w item = None) \<and>
   (\<forall>item response soup. http_get w (page_request (item_link item)) = Inr response \<and>
       html_parser w (resp_text response) = Inr soup \<and>
       soup_meta_description soup = Some None \<longrightarrow> page_row w item = None) \<and>
   (\<forall>item response soup. http_get w (page_request (item_link item)) = Inr response \<and>
       html_parser w (resp_text response) = Inr soup \<and>
       soup_meta_description soup \<noteq> Some None \<longrightarrow>
         (\<exists>row. page_row w item = Some row \<and> URL row = item_link item))"
proof (intro conjI allI impI)
  show "fst (analyze_competitors cfg w query n)
     = List.map_filter (page_row w) (fst (get_google_search_results cfg w query n))"
    by (rule analyze_competitors_rows)
next
  fix item e
  assume "http_get w (page_request (item_link item)) = Inl e"
  then show "page_row w item = None" by (rule fetch_failure_no_row)
next
  fix item response e
  assume "http_get w (page_request (item_link item)) = Inr response \<and>
       html_parser w (resp_text response) = Inl e"
  then show "page_row w item = None" by (auto intro: parse_failure_no_row)
next
  fix item response soup
  assume "http_get w (page_request (item_link item)) = Inr response \<and>
       html_parser w (resp_text response) = Inr soup \<and>
       soup_meta_description soup = Some None"
  then show "page_row w item = None" by (auto intro: content_missing_no_row)
next
  fix item response soup
  assume a: "http_get w (page_request (item_link item)) = Inr response \<and>
       html_parser w (resp_text response) = Inr soup \<and>
       soup_meta_description soup \<noteq> Some None"
  from a have "http_get w (page_request (item_link item)) = Inr response"
    and "html_parser w (resp_text response) = Inr soup"
    and "soup_meta_description soup \<noteq> Some None" by simp_all
  from parsed_page_row [OF this]
  show "\<exists>row. page_row w item = Some row \<and> URL row = item_link item" by blast
qed

text \<open>One of three pages times out: the rows of the other two are returned, in order.\<close>

lemma timeout_is_skipped:
  "http_get small_world (page_request (item_link item_b)) = Inl (RequestException ''timed out'') \<and>
   fst (analyze_competitors full_credentials small_world ''q'' 3)
     = [\<lparr>URL = ''http://a'', Title = Some ''No title'', H1 = ''No H1'',
          Meta_Description = ''No meta description'', Word_Count = 2, Rank = PStr []\<rparr>,
        \<lparr>URL = ''http://c'', Title = Some ''C'', H1 = ''No H1'',
          Meta_Description = ''c'', Word_Count = 1, Rank = PInt 3\<rparr>]"
  using rows_of_analyzed_pages [of full_credentials small_world "''q''" 3, THEN conjunct1]
  by (simp add: small_world_search small_world_rows small_world_timeout List.map_filter_simps)


text \<open>
  A page that is fetched and parsed, and whose description \<^verbatim>\<open>meta\<close> tag, if there is one,
  has a \<^verbatim>\<open>content\<close> attribute, gets a row, with \<^verbatim>\<open>"No title"\<close>, \<^verbatim>\<open>"No H1"\<close> and
  \<^verbatim>\<open>"No meta description"\<close> for a missing title, first \<^verbatim>\<open>h1\<close> and description tag.
\<close>

lemma sentinels_for_missing_elements:
  assumes "item \<in> set (fst (get_google_search_results cfg w query n))"
    and "http_get w (page_request (item_link item)) = Inr response"
    and "html_parser w (resp_text response) = Inr soup"
    and "soup_meta_description soup \<noteq> Some None"
  shows "\<exists>row \<in> set (fst (analyze_competitors cfg w query n)).
           page_row w item = Some row \<and> URL row = item_link item \<and>
           (soup_title soup = None \<longrightarrow> Title row = Some ''No title'') \<and>
           (soup_h1 soup = None \<longrightarrow> H1 row = ''No H1'') \<and>
           (soup_meta_description soup = None \<longrightarrow> Meta_Description row = ''No meta description'')"
proof -
  from parsed_page_row [OF assms(2,3,4)]
  obtain row where row: "page_row w item = Some row" and url: "URL row = item_link item"
    and title: "Title row = (case soup_title soup of None \<Rightarrow> Some ''No title'' | Some s \<Rightarrow> s)"
    and h1: "H1 row = (case soup_h1 soup of None \<Rightarrow> ''No H1'' | Some t \<Rightarrow> t)"
    and meta: "soup_meta_description soup = None \<longrightarrow> Meta_Description row = ''No meta description''"
    by (elim exE conjE)
  have member: "row \<in> set (fst (analyze_competitors cfg w query n))"
    unfolding analyze_competitors_rows using assms(1) row by (rule map_filter_member)
  have t: "soup_title soup = None \<longrightarrow> Title row = Some ''No title''"
    by (simp only: title option.case) simp
  have h: "soup_h1 soup = None \<longrightarrow> H1 row = ''No H1''"
    by (simp only: h1 option.case) simp
  from member row url t h meta show ?thesis
    by (intro bexI [of _ row] conjI)
qed

lemma bare_page_gets_sentinels:
  "item_a \<in> set (fst (get_google_search_results full_credentials small_world ''q'' 3)) \<and>
   html_parser small_world ''<p>one two</p>'' = Inr bare_soup \<and>
   soup_meta_description bare_soup \<noteq> Some None \<and>
   (\<exists>row \<in> set (fst (analyze_competitors full_credentials small_world ''q'' 3)).
      URL row = item_link item_a \<and> Title row = Some ''No title'' \<and> H1 row = ''No H1'' \<and>
      Meta_Description row = ''No meta description'')"
proof -
  have parsed: "html_parser small_world
      (resp_text \<lparr>resp_status_code = 200, resp_text = ''<p>one two</p>'',
                  resp_json = Inl (ValueError [])\<rparr>) = Inr bare_soup"
    by (simp add: small_world_page_a)
  have meta: "soup_meta_description bare_soup \<noteq> Some None"
    by (simp add: small_world_page_a)
  from sentinels_for_missing_elements [OF item_a_found small_world_page_a(1) parsed meta]
  show ?thesis
    using item_a_found meta by (auto simp: small_world_page_a)
qed

text \<open>
  Claim C7 fails on the code: in \<open>small_world_no_content\<close> the page of the third result
  is fetched and parsed and has no \<^verbatim>\<open>h1\<close>, so the claim promises a record with
  \<^verbatim>\<open>"No H1"\<close>. Its description \<^verbatim>\<open>meta\<close> tag has no \<^verbatim>\<open>content\<close> attribute: the test
  \<^verbatim>\<open>if meta_desc\<close> guards against a missing tag only, \<^verbatim>\<open>meta_desc['content']\<close> raises
  \<^verbatim>\<open>KeyError\<close>, the page is skipped, and the only record returned is that of the first
  result.
\<close>

theorem page_without_h1_is_skipped:
  "item_c \<in> set (fst (get_google_search_results full_credentials small_world_no_content ''q'' 3)) \<and>
   http_get small_world_no_content (page_request (item_link item_c))
     = Inr \<lparr>resp_status_code = 200, resp_text = ''<title>C</title><meta name=description>'',
            resp_json = Inl (ValueError [])\<rparr> \<and>
   html_parser small_world_no_content ''<title>C</title><meta name=description>''
     = Inr \<lparr>soup_title = Some (Some ''C''), soup_h1 = None,
            soup_meta_description = Some None, soup_text = ''C''\<rparr> \<and>
   analyze_page small_world_no_content item_c = Inl (KeyError ''content'') \<and>
   map URL (fst (analyze_competitors full_credentials small_world_no_content ''q'' 3)) = [''http://a'']"
  by code_simp

text \<open>
  Claim C10: the early return of \<^verbatim>\<open>get_google_search_results\<close>, and so of
  \<^verbatim>\<open>analyze_competitors\<close>, happens exactly when \<^verbatim>\<open>GOOGLE_CSE_ID\<close> is unset (the empty
  string). When it is set,
  the first thing both functions do is send the search request, whether or not
  \<^verbatim>\<open>GOOGLE_API_KEY\<close> is set; with the key unset the request goes out with the parameter
  \<^verbatim>\<open>key\<close> set to \<^verbatim>\<open>None\<close>.
\<close>

theorem early_return_only_without_cse_id:
  "(GOOGLE_CSE_ID cfg = [] \<longrightarrow> get_google_search_results cfg w query n = ([], [])) \<and>
   (GOOGLE_CSE_ID cfg \<noteq> [] \<longrightarrow>
      (\<exists>rest. snd (get_google_search_results cfg w query n)
                = Request (search_request cfg query n) # rest) \<and>
      (\<exists>rest. snd (analyze_competitors cfg w query n)
                = Request (search_request cfg query n) # rest)) \<and>
   (GOOGLE_API_KEY cfg = None \<longrightarrow>
      map_of (req_params (search_request cfg query n)) ''key'' = Some PNone)"
proof (intro conjI impI)
  assume "GOOGLE_CSE_ID cfg = []"
  then show "get_google_search_results cfg w query n = ([], [])"
    by (rule search_unconfigured)
next
  assume cse: "GOOGLE_CSE_ID cfg \<noteq> []"
  then show "\<exists>rest. snd (get_google_search_results cfg w query n)
                = Request (search_request cfg query n) # rest"
    by (rule search_configured)
  then obtain rest where rest: "snd (get_google_search_results cfg w query n)
                = Request (search_request cfg query n) # rest" ..
  obtain more where "snd (analyze_competitors cfg w query n)
                     = snd (get_google_search_results cfg w query n) @ more"
    using analyze_competitors_trace by blast
  then show "\<exists>rest. snd (analyze_competitors cfg w query n)
                = Request (search_request cfg query n) # rest"
    by (simp add: rest)
next
  assume "GOOGLE_API_KEY cfg = None"
  then show "map_of (req_params (search_request cfg query n)) ''key'' = Some PNone"
    by (simp add: search_request_def)
qed

theorem early_return_only_without_cse_id_witness:
  "GOOGLE_CSE_ID cse_id_only \<noteq> [] \<and> GOOGLE_API_KEY cse_id_only = None \<and>
   snd (get_google_search_results cse_id_only small_world ''q'' 3)
     = [Request (search_request cse_id_only ''q'' 3)] \<and>
   (\<exists>rest. snd (analyze_competitors cse_id_only small_world ''q'' 3)
             = Request (search_request cse_id_only ''q'' 3) # rest) \<and>
   map_of (req_params (search_request cse_id_only ''q'' 3)) ''key'' = Some PNone"
  using early_return_only_without_cse_id [of cse_id_only small_world "''q''" 3]
  by (simp add: cse_id_only_trace) (simp add: cse_id_only_def search_request_def)

end
